theory Spec2Isabelle
  imports Main
begin

section \<open>The git controller of the nightly build script (git.py)\<close>

text \<open>
  \<^verbatim>\<open>git.py\<close> holds one class, \<^verbatim>\<open>GitRepository\<close>, bound to a directory and a branch.
  Every method builds the text of a shell command and hands it to \<^verbatim>\<open>subprocess\<close> with
  \<^verbatim>\<open>shell=True\<close>. The external tools (the shell, git, grep, head) are not part of the
  program: the embedding takes them as a parameter \<open>sh\<close>, a function from the command
  text and the state of the outside world to the exit status, the bytes written to standard
  output and the next state of the world. What the program itself does (which command texts
  it builds, in which order it runs them, what it prints, what it does with exit statuses
  and captured output, which exceptions it raises) is modelled in full.

  Text: a Python \<^verbatim>\<open>bytes\<close> value is a \<open>string\<close> (a list of 8-bit characters); a Python
  \<^verbatim>\<open>str\<close> is represented by its UTF-8 encoding, so that interpolation is concatenation.
  The model is of CPython 3 on a POSIX system with assertions enabled.
\<close>

subsection \<open>Data model, exceptions, the outside world\<close>

record GitRepository =
  branch :: string
  path :: string

datatype error =
    AssertionError
  | CalledProcessError int
  | IndexError
  | UnicodeDecodeError

text \<open>
  What the process does to the outside, in order: a line printed on \<^verbatim>\<open>sys.stdout\<close>, or a
  subprocess spawned through the shell with the given command text, together with the exit
  status it came back with.
\<close>

datatype event = Printed string | Spawned string int

type_synonym 'w shell = "string \<Rightarrow> 'w \<Rightarrow> int \<times> string \<times> 'w"

record 'w st =
  world :: 'w
  trace :: "event list"



text \<open>
  \<^verbatim>\<open>subprocess.check_output(cmd, shell=True)\<close>: runs the command to completion, returns
  the captured standard output, raises \<^verbatim>\<open>CalledProcessError\<close> on a non-zero exit status.
\<close>

definition subprocess_check_output ::
  "'w shell \<Rightarrow> string \<Rightarrow> 'w st \<Rightarrow> (error + string) \<times> 'w st" where
  "subprocess_check_output sh cmd s =
     (case sh cmd (world s) of
        (rc, out, w') \<Rightarrow>
          (if rc = 0 then Inr out else Inl (CalledProcessError rc),
           \<lparr>world = w', trace = trace s @ [Spawned cmd rc]\<rparr>))"

text \<open>Sequencing of two steps: an exception of the first step skips the second.\<close>

definition and_then ::
  "('s \<Rightarrow> (error + 'a) \<times> 's) \<Rightarrow> ('a \<Rightarrow> 's \<Rightarrow> (error + 'b) \<times> 's) \<Rightarrow> 's \<Rightarrow> (error + 'b) \<times> 's" where
  "and_then m f s = (case m s of (Inl e, s') \<Rightarrow> (Inl e, s') | (Inr x, s') \<Rightarrow> f x s')"

subsection \<open>The string methods the program calls\<close>

text \<open>\<^verbatim>\<open>bytes.strip()\<close>: drops ASCII whitespace at both ends.\<close>

definition is_space :: "char \<Rightarrow> bool" where
  "is_space c \<longleftrightarrow> c \<in> {CHR '' '', CHR 0x09, CHR 0x0A, CHR 0x0B, CHR 0x0C, CHR 0x0D}"

definition strip :: "string \<Rightarrow> string" where
  "strip s = rev (dropWhile is_space (rev (dropWhile is_space s)))"

text \<open>
  \<^verbatim>\<open>bytes.decode("UTF-8")\<close>: raises \<^verbatim>\<open>UnicodeDecodeError\<close> unless the bytes are
  well-formed UTF-8 (no overlong forms, no surrogates, nothing above U+10FFFF). The decoded
  text is represented by those same bytes.
\<close>

definition cont :: "nat \<Rightarrow> bool" where
  "cont b \<longleftrightarrow> 0x80 \<le> b \<and> b \<le> 0xBF"

fun utf8_valid :: "nat list \<Rightarrow> bool" where
  "utf8_valid [] = True"
| "utf8_valid (a # bs) =
     (if a < 0x80 then utf8_valid bs
      else if 0xC2 \<le> a \<and> a \<le> 0xDF then
        (case bs of b # r \<Rightarrow> cont b \<and> utf8_valid r | _ \<Rightarrow> False)
      else if 0xE0 \<le> a \<and> a \<le> 0xEF then
        (case bs of
           b # c # r \<Rightarrow>
             (if a = 0xE0 then 0xA0 \<le> b \<and> b \<le> 0xBF
              else if a = 0xED then 0x80 \<le> b \<and> b \<le> 0x9F
              else cont b) \<and> cont c \<and> utf8_valid r
         | _ \<Rightarrow> False)
      else if 0xF0 \<le> a \<and> a \<le> 0xF4 then
        (case bs of
           b # c # d # r \<Rightarrow>
             (if a = 0xF0 then 0x90 \<le> b \<and> b \<le> 0xBF
              else if a = 0xF4 then 0x80 \<le> b \<and> b \<le> 0x8F
              else cont b) \<and> cont c \<and> cont d \<and> utf8_valid r
         | _ \<Rightarrow> False)
      else False)"

definition decode :: "string \<Rightarrow> error + string" where
  "decode bs = (if utf8_valid (map of_char bs) then Inr bs else Inl UnicodeDecodeError)"

text \<open>
  \<^verbatim>\<open>str.splitlines()\<close>: the lines of a text, without their line boundaries. A boundary is
  \<^verbatim>\<open>\r\n\<close>, or one of \<^verbatim>\<open>\n \r \v \f \x1c \x1d \x1e \x85 \u2028 \u2029\<close>; the last three are
  the byte sequences C2 85, E2 80 A8 and E2 80 A9 in the UTF-8 representation. A text that
  ends with a boundary has no empty last line. \<open>cur\<close> is the line read so far.
\<close>

definition is_linebreak :: "char \<Rightarrow> bool" where
  "is_linebreak c \<longleftrightarrow>
     c \<in> {CHR 0x0A, CHR 0x0B, CHR 0x0C, CHR 0x0D, CHR 0x1C, CHR 0x1D, CHR 0x1E}"

function splitlines_from :: "string \<Rightarrow> string \<Rightarrow> string list" where
  "splitlines_from cur [] = (if cur = [] then [] else [cur])"
| "splitlines_from cur (c # cs) =
     (if c = CHR 0x0D \<and> take 1 cs = [CHR 0x0A] then cur # splitlines_from [] (drop 1 cs)
      else if is_linebreak c then cur # splitlines_from [] cs
      else if c = CHR 0xC2 \<and> take 1 cs = [CHR 0x85] then cur # splitlines_from [] (drop 1 cs)
      else if c = CHR 0xE2 \<and> (take 2 cs = [CHR 0x80, CHR 0xA8] \<or> take 2 cs = [CHR 0x80, CHR 0xA9])
        then cur # splitlines_from [] (drop 2 cs)
      else splitlines_from (cur @ [c]) cs)"
  by pat_completeness auto
termination
  by (relation "measure (\<lambda>(cur, s). length s)") auto

definition splitlines :: "string \<Rightarrow> string list" where
  "splitlines s = splitlines_from [] s"



text \<open>
  \<^verbatim>\<open>os.path.join(a, b)\<close> of \<^verbatim>\<open>posixpath\<close>, for two components: an absolute \<open>b\<close>
  replaces \<open>a\<close>; a separator is inserted unless \<open>a\<close> is empty or ends with one.
\<close>

definition path_join :: "string \<Rightarrow> string \<Rightarrow> string" where
  "path_join a b =
     (if take 1 b = ''/'' then b
      else if a = [] \<or> last a = CHR ''/'' then a @ b
      else a @ ''/'' @ b)"

text \<open>\<open>quoted x\<close> is the text \<^verbatim>\<open>'{}'\<close> with \<open>x\<close> in place of the braces.\<close>

definition quoted :: "string \<Rightarrow> string" where
  "quoted x = CHR 0x27 # x @ [CHR 0x27]"

subsection \<open>The command helpers\<close>

definition format_git_cmd :: "GitRepository \<Rightarrow> string \<Rightarrow> string" where
  "format_git_cmd self cmd =
     ''git --git-dir='' @ quoted (path_join (path self) ''.git'')
       @ '' --work-tree='' @ quoted (path self) @ '' '' @ cmd"

definition git_get_output ::
  "'w shell \<Rightarrow> GitRepository \<Rightarrow> string \<Rightarrow> 'w st \<Rightarrow> (error + string) \<times> 'w st" where
  "git_get_output sh self cmd =
     and_then (subprocess_check_output sh (format_git_cmd self cmd))
       (\<lambda>out s. (decode (strip out), s))"



subsection \<open>The public operations\<close>


text \<open>The format given to \<^verbatim>\<open>git log --pretty=format:\<close>, between the double quotes.\<close>

definition log_format :: string where
  "log_format =
     ''------------------------------------------------------------------------%n''
     @ ''commit %h%nAuthor: %an <%ad>%n''
     @ ''Commit: %cn <%cd>%n%n    %s''"

definition tag_query :: "string \<Rightarrow> string \<Rightarrow> string" where
  "tag_query pattern n =
     ''for-each-ref --sort=-taggerdate --format '%(tag)' refs/tags | grep ''
       @ quoted pattern @ '' | head -n'' @ n"

definition log_cmd :: "string \<Rightarrow> string \<Rightarrow> string" where
  "log_cmd t1 t0 =
     ''log '' @ t1 @ ''^..'' @ t0 @ ''^ --no-merges --stat --pretty=format:''
       @ [CHR 0x22] @ log_format @ [CHR 0x22]"

definition get_log ::
  "'w shell \<Rightarrow> GitRepository \<Rightarrow> string \<Rightarrow> 'w st \<Rightarrow> (error + string) \<times> 'w st" where
  "get_log sh self pattern =
     and_then (git_get_output sh self (tag_query pattern ''2''))
       (\<lambda>out s.
          (case splitlines out of
             t0 # t1 # _ \<Rightarrow> git_get_output sh self (log_cmd t1 t0) s
           | _ \<Rightarrow> (Inl IndexError, s)))"

definition get_latest_tag_commit ::
  "'w shell \<Rightarrow> GitRepository \<Rightarrow> string \<Rightarrow> 'w st \<Rightarrow> (error + string) \<times> 'w st" where
  "get_latest_tag_commit sh self pattern =
     and_then (git_get_output sh self (tag_query pattern ''1''))
       (\<lambda>tag. git_get_output sh self (''rev-parse --short '' @ tag @ ''^''))"





subsection \<open>Reading a trace; a scripted outside world\<close>

text \<open>The subprocesses of a trace, in order: command text and exit status.\<close>

fun runs :: "event list \<Rightarrow> (string \<times> int) list" where
  "runs [] = []"
| "runs (Spawned cmd rc # es) = (cmd, rc) # runs es"
| "runs (Printed _ # es) = runs es"


text \<open>
  A world for running the operations on concrete inputs: the list of the answers (exit
  status, standard output) that the coming subprocesses will give, whatever the command.
\<close>

definition scripted :: "(int \<times> string) list shell" where
  "scripted cmd answers =
     (case answers of [] \<Rightarrow> (0, [], []) | (rc, out) # rest \<Rightarrow> (rc, out, rest))"

definition start :: "'w \<Rightarrow> 'w st" where
  "start w = \<lparr>world = w, trace = []\<rparr>"

definition repo :: GitRepository where
  "repo = \<lparr>branch = ''master'', path = ''/srv/fs2open''\<rparr>"

subsection \<open>Counting subprocesses\<close>

text \<open>The number of subprocesses spawned between the state \<open>s\<close> and the later state \<open>s'\<close>.\<close>

definition spawned_by :: "'w st \<Rightarrow> 'w st \<Rightarrow> nat" where
  "spawned_by s s' = length (runs (trace s')) - length (runs (trace s))"

subsection \<open>The command text as the specification words it; single quotes in the shell\<close>

text \<open>
  The text that the specification gives for \<^verbatim>\<open>_format_git_cmd\<close>:
  \<^verbatim>\<open>git --git-dir='<path>/.git' --work-tree='<path>' <cmd>\<close>.
\<close>

definition spec_git_cmd :: "string \<Rightarrow> string \<Rightarrow> string" where
  "spec_git_cmd p cmd =
     ''git --git-dir='' @ quoted (p @ ''/.git'') @ '' --work-tree='' @ quoted p @ '' '' @ cmd"

text \<open>
  The shell's rule for single quotes (POSIX, Shell Command Language, 2.2.2): after an
  opening single quote every character is literal up to the next single quote, which
  closes the quoted text. \<open>sq_text t\<close> is the quoted text that the shell reads from \<open>t\<close>,
  a text that starts with the opening quote.
\<close>

definition sq_text :: "string \<Rightarrow> string" where
  "sq_text t = takeWhile (\<lambda>c. c \<noteq> CHR 0x27) (tl t)"

subsection \<open>What git makes of the format: the placeholders\<close>

text \<open>
  \<^verbatim>\<open>git log --pretty=format:<text>\<close> prints \<open><text>\<close> for every commit, with each
  placeholder replaced by a field of the commit (git-log(1), PRETTY FORMATS). The table has
  the placeholders that the program's format uses, and the two for the e-mail addresses.
\<close>

record commit =
  short_hash :: string
  author_name :: string
  author_email :: string
  author_date :: string
  committer_name :: string
  committer_email :: string
  committer_date :: string
  subject :: string



text \<open>\<open>contains sub s\<close>: the text \<open>sub\<close> occurs in \<open>s\<close> (Python's \<^verbatim>\<open>sub in s\<close>).\<close>

fun contains :: "string \<Rightarrow> string \<Rightarrow> bool" where
  "contains sub [] = (sub = [])"
| "contains sub (x # xs) = (take (length sub) (x # xs) = sub \<or> contains sub xs)"

subsection \<open>What the shell makes of the tag query: grep\<close>

text \<open>
  \<^verbatim>\<open>grep '<pattern>'\<close> prints the lines in which the basic regular expression
  \<open><pattern>\<close> matches somewhere (POSIX, grep and Basic Regular Expressions). The model
  covers the patterns made of ordinary characters and the period: an ordinary character
  matches itself, a period matches any character (a character is a byte: ASCII tag names,
  or the C locale). \<open>bre_fragment\<close> says that a pattern is one of these: printable
  ASCII, with none of the other special characters of a basic regular expression, no
  single quote (which would end the shell's quoting) and no leading hyphen (which would
  make it an option of \<^verbatim>\<open>grep\<close>).
\<close>

definition bre_fragment :: "string \<Rightarrow> bool" where
  "bre_fragment p \<longleftrightarrow>
     list_all (\<lambda>c. 0x20 \<le> (of_char c :: nat) \<and> (of_char c :: nat) \<le> 0x7E
                 \<and> c \<notin> {CHR ''['', CHR 0x5C, CHR ''*'', CHR ''^'', CHR ''$'', CHR 0x27}) p
     \<and> take 1 p \<noteq> ''-''"

fun bre_at :: "string \<Rightarrow> string \<Rightarrow> bool" where
  "bre_at [] line = True"
| "bre_at (p # ps) [] = False"
| "bre_at (p # ps) (c # cs) = ((p = CHR ''.'' \<or> p = c) \<and> bre_at ps cs)"

fun grep_matches :: "string \<Rightarrow> string \<Rightarrow> bool" where
  "grep_matches p [] = bre_at p []"
| "grep_matches p (c # cs) = (bre_at p (c # cs) \<or> grep_matches p cs)"

definition unlines :: "string list \<Rightarrow> string" where
  "unlines ls = concat (map (\<lambda>l. l @ ''\<newline>'') ls)"

text \<open>
  An outside world for the tag queries: \<open>tags\<close> are the names of the repository's annotated
  tags, newest first, as \<^verbatim>\<open>for-each-ref --sort=-taggerdate --format '%(tag)' refs/tags\<close>
  prints them, one per line. \<open>tag_shell self\<close> answers the tag query of the repository
  \<open>self\<close> for a pattern of the fragment: \<^verbatim>\<open>grep\<close> keeps the lines that match,
  \<^verbatim>\<open>head -n<k>\<close> the first \<open>k\<close> of them, and the exit status is that of \<^verbatim>\<open>head\<close>. Any other
  command takes its answer from the script.
\<close>

record tag_world =
  tags :: "string list"
  script :: "(int \<times> string) list"

definition parse_tag_query :: "GitRepository \<Rightarrow> string \<Rightarrow> (string \<times> nat) option" where
  "parse_tag_query self cmd =
     (let pre = format_git_cmd self
                  ''for-each-ref --sort=-taggerdate --format '%(tag)' refs/tags | grep '';
          body = drop (length pre + 1) cmd;
          pat = take (length body - 12) body;
          post = drop (length body - 12) body
      in if take (length pre + 1) cmd = pre @ [CHR 0x27] \<and> 12 \<le> length body
            \<and> take 11 post = CHR 0x27 # '' | head -n''
         then (if drop 11 post = ''1'' then Some (pat, 1)
               else if drop 11 post = ''2'' then Some (pat, 2)
               else None)
         else None)"

definition tag_shell :: "GitRepository \<Rightarrow> tag_world shell" where
  "tag_shell self cmd w =
     (case parse_tag_query self cmd of
        Some (pat, k) \<Rightarrow>
          (if bre_fragment pat
           then (0, unlines (take k (filter (grep_matches pat) (tags w))), w)
           else (case scripted cmd (script w) of (rc, out, rest) \<Rightarrow> (rc, out, w\<lparr>script := rest\<rparr>)))
      | None \<Rightarrow>
          (case scripted cmd (script w) of (rc, out, rest) \<Rightarrow> (rc, out, w\<lparr>script := rest\<rparr>)))"

section \<open>Properties\<close>

subsection \<open>The helpers, step by step\<close>



lemma and_then_Inr: "m s = (Inr x, s') \<Longrightarrow> and_then m f s = f x s'"
  by (simp add: and_then_def)

lemma and_then_Inl: "m s = (Inl e, s') \<Longrightarrow> and_then m f s = (Inl e, s')"
  by (simp add: and_then_def)

lemma runs_append: "runs (xs @ ys) = runs xs @ runs ys"
  by (induction xs rule: runs.induct) simp_all


subsection \<open>commit_and_tag\<close>




subsection \<open>prepare_repo\<close>




subsection \<open>The queries\<close>

lemma git_get_output_run:
  "git_get_output sh self cmd s =
     (if fst (sh (format_git_cmd self cmd) (world s)) = 0
      then decode (strip (fst (snd (sh (format_git_cmd self cmd) (world s)))))
      else Inl (CalledProcessError (fst (sh (format_git_cmd self cmd) (world s)))),
      \<lparr>world = snd (snd (sh (format_git_cmd self cmd) (world s))),
       trace = trace s @ [Spawned (format_git_cmd self cmd)
                            (fst (sh (format_git_cmd self cmd) (world s)))]\<rparr>)"
  by (simp add: git_get_output_def and_then_def subprocess_check_output_def split: prod.splits)

lemma git_get_output_Inr_trace:
  assumes "git_get_output sh self cmd s = (Inr out, s1)"
  shows "trace s1 = trace s @ [Spawned (format_git_cmd self cmd) 0]"
  using assms by (auto simp: git_get_output_run split: if_splits)







text \<open>
  C1 (as the code has it). When the tag query exits with 0 and its output, trimmed and
  decoded, has fewer than two lines, \<open>get_log\<close> raises Python's \<^verbatim>\<open>IndexError\<close>, the
  exception of the out-of-range read \<^verbatim>\<open>tags[1]\<close>; the log command is not run and no
  data is returned. The program has no exception of its own for this case.
\<close>

theorem get_log_too_few_tags:
  assumes "sh (format_git_cmd self (tag_query pattern ''2'')) (world s) = (0, out, w')"
    and "decode (strip out) = Inr text"
    and "length (splitlines text) < 2"
  shows "get_log sh self pattern s =
           (Inl IndexError,
            \<lparr>world = w',
             trace = trace s @ [Spawned (format_git_cmd self (tag_query pattern ''2'')) 0]\<rparr>)"
proof -
  from assms(3) have "splitlines text = [] \<or> (\<exists>t. splitlines text = [t])"
    by (cases "splitlines text"; cases "tl (splitlines text)") auto
  then show ?thesis
    using assms(1,2) by (auto simp: get_log_def and_then_def git_get_output_run)
qed

text \<open>No tag matches: the pipeline prints nothing and exits with the status of \<^verbatim>\<open>head\<close>.\<close>

theorem get_log_too_few_tags_witness:
  "get_log scripted repo ''nightly'' (start [(0, [])])
     = (Inl IndexError,
        \<lparr>world = [], trace = [Spawned (format_git_cmd repo (tag_query ''nightly'' ''2'')) 0]\<rparr>)"
proof -
  have run: "scripted (format_git_cmd repo (tag_query ''nightly'' ''2'')) (world (start [(0, [])]))
               = (0, [], [])"
    by (simp add: scripted_def start_def)
  have dec: "decode (strip []) = Inr []"
    by (simp add: decode_def strip_def)
  have len: "length (splitlines []) < 2"
    by (simp add: splitlines_def)
  from get_log_too_few_tags [where sh = scripted, OF run dec len] show ?thesis
    by (simp add: start_def)
qed

text \<open>
  One tag matches: the claimed dedicated error is not what is raised; the failure is the
  \<^verbatim>\<open>IndexError\<close> of the out-of-range read.
\<close>

theorem get_log_one_tag_index_error:
  "get_log scripted repo ''nightly'' (start [(0, ''nightly_20200101\<newline>'')])
     = (Inl IndexError,
        \<lparr>world = [], trace = [Spawned (format_git_cmd repo (tag_query ''nightly'' ''2'')) 0]\<rparr>)"
  by (simp add: get_log_def and_then_def git_get_output_run scripted_def start_def
      strip_def is_space_def decode_def splitlines_def is_linebreak_def)



subsection \<open>Subprocesses per call\<close>

lemma spawned_by_append:
  "trace s' = trace s @ evs \<Longrightarrow> spawned_by s s' = length (runs evs)"
  by (simp add: spawned_by_def runs_append)















subsection \<open>The command text\<close>

lemma sq_text_quoted: "sq_text (quoted x @ rest) = takeWhile (\<lambda>c. c \<noteq> CHR 0x27) x"
proof -
  let ?P = "\<lambda>c. c \<noteq> CHR 0x27"
  have "takeWhile ?P (x @ CHR 0x27 # rest) = takeWhile ?P x"
  proof (cases "CHR 0x27 \<in> set x")
    case True
    show ?thesis
      by (rule takeWhile_append1 [OF True]) simp
  next
    case False
    then have all: "\<And>c. c \<in> set x \<Longrightarrow> ?P c" by auto
    then have a: "takeWhile ?P x = x"
      by (simp add: takeWhile_eq_all_conv)
    have b: "takeWhile ?P (x @ CHR 0x27 # rest) = x @ takeWhile ?P (CHR 0x27 # rest)"
      using all by (rule takeWhile_append2)
    show ?thesis
      unfolding b a by simp
  qed
  then show ?thesis
    by (simp add: sq_text_def quoted_def)
qed

text \<open>
  C10 (as the code has it). \<open>format_git_cmd\<close> is a function of the path and the command
  text alone, and its result is the text
  \<^verbatim>\<open>git --git-dir='<dir>' --work-tree='<path>' <cmd>\<close>, where \<open><dir>\<close> is
  \<^verbatim>\<open>os.path.join(path, ".git")\<close>: the path followed by \<^verbatim>\<open>/.git\<close>, or by \<^verbatim>\<open>.git\<close> alone
  when the path is empty or ends with a slash. So the text is the one the specification
  gives whenever the path is not empty and has no trailing slash. Path and command are
  copied as they are, nothing is quoted or escaped: a text \<open>x\<close> interpolated between
  single quotes is read by the shell up to the first single quote of \<open>x\<close>, so it is read
  as \<open>x\<close> only when \<open>x\<close> has no single quote.
\<close>

theorem format_git_cmd_text:
  "format_git_cmd self cmd =
     ''git --git-dir='' @ [CHR 0x27] @ path self
       @ (if path self = [] \<or> last (path self) = CHR ''/'' then ''.git'' else ''/.git'')
       @ [CHR 0x27] @ '' --work-tree='' @ [CHR 0x27] @ path self @ [CHR 0x27] @ '' '' @ cmd
   \<and> (path self \<noteq> [] \<and> last (path self) \<noteq> CHR ''/''
        \<longrightarrow> format_git_cmd self cmd = spec_git_cmd (path self) cmd)
   \<and> sq_text (quoted x @ rest) = takeWhile (\<lambda>c. c \<noteq> CHR 0x27) x
   \<and> (sq_text (quoted x @ rest) = x \<longleftrightarrow> CHR 0x27 \<notin> set x)"
proof -
  have "format_git_cmd self cmd =
     ''git --git-dir='' @ [CHR 0x27] @ path self
       @ (if path self = [] \<or> last (path self) = CHR ''/'' then ''.git'' else ''/.git'')
       @ [CHR 0x27] @ '' --work-tree='' @ [CHR 0x27] @ path self @ [CHR 0x27] @ '' '' @ cmd"
    by (simp add: format_git_cmd_def path_join_def quoted_def)
  moreover have "path self \<noteq> [] \<and> last (path self) \<noteq> CHR ''/''
        \<longrightarrow> format_git_cmd self cmd = spec_git_cmd (path self) cmd"
    by (simp add: format_git_cmd_def spec_git_cmd_def path_join_def quoted_def)
  moreover have "sq_text (quoted x @ rest) = x \<longleftrightarrow> CHR 0x27 \<notin> set x"
    unfolding sq_text_quoted by (auto simp: takeWhile_eq_all_conv)
  ultimately show ?thesis
    using sq_text_quoted by blast
qed

text \<open>
  The repository \<^verbatim>\<open>/srv/fs2open\<close>; and the tag name \<^verbatim>\<open>a' -m 'b\<close>, of which the shell
  reads \<^verbatim>\<open>a\<close> as the quoted text.
\<close>

theorem format_git_cmd_text_witness:
  "format_git_cmd repo ''status''
     = ''git --git-dir='/srv/fs2open/.git' --work-tree='/srv/fs2open' status''
   \<and> format_git_cmd repo ''status'' = spec_git_cmd ''/srv/fs2open'' ''status''
   \<and> sq_text (quoted ''a' -m 'b'' @ '' -m x'') = ''a''"
proof -
  have p: "path repo = ''/srv/fs2open''"
    by (simp add: repo_def)
  note t = format_git_cmd_text [of repo "''status''" "''a' -m 'b''" "'' -m x''"]
  have a: "format_git_cmd repo ''status''
             = ''git --git-dir='/srv/fs2open/.git' --work-tree='/srv/fs2open' status''"
    using t [THEN conjunct1] by (simp add: p)
  have b: "format_git_cmd repo ''status'' = spec_git_cmd ''/srv/fs2open'' ''status''"
    using t [THEN conjunct2, THEN conjunct1] by (simp add: p)
  have c: "sq_text (quoted ''a' -m 'b'' @ '' -m x'') = ''a''"
    using t [THEN conjunct2, THEN conjunct2, THEN conjunct1] by simp
  from a b c show ?thesis by blast
qed

text \<open>
  The same directory given with a trailing slash: the text has \<^verbatim>\<open>/srv/fs2open/.git\<close>
  where the specification's has \<^verbatim>\<open>/srv/fs2open//.git\<close>.
\<close>

theorem format_git_cmd_trailing_slash:
  "format_git_cmd \<lparr>branch = ''master'', path = ''/srv/fs2open/''\<rparr> ''status''
     = ''git --git-dir='/srv/fs2open/.git' --work-tree='/srv/fs2open/' status''
   \<and> spec_git_cmd ''/srv/fs2open/'' ''status''
     = ''git --git-dir='/srv/fs2open//.git' --work-tree='/srv/fs2open/' status''
   \<and> format_git_cmd \<lparr>branch = ''master'', path = ''/srv/fs2open/''\<rparr> ''status''
     \<noteq> spec_git_cmd ''/srv/fs2open/'' ''status''"
  by (simp add: format_git_cmd_def spec_git_cmd_def path_join_def quoted_def)

subsection \<open>The entries of the log\<close>





subsection \<open>The tag filter\<close>

lemma bre_at_plain:
  "CHR ''.'' \<notin> set p \<Longrightarrow> bre_at p line = (take (length p) line = p)"
  by (induction p line rule: bre_at.induct) auto

lemma grep_matches_plain:
  "CHR ''.'' \<notin> set p \<Longrightarrow> grep_matches p line = contains p line"
  by (induction line) (auto simp: bre_at_plain)

lemma parse_tag_query_1:
  "parse_tag_query self (format_git_cmd self (tag_query pattern ''1'')) = Some (pattern, 1)"
proof -
  let ?pre = "format_git_cmd self
                ''for-each-ref --sort=-taggerdate --format '%(tag)' refs/tags | grep ''"
  have cmd: "format_git_cmd self (tag_query pattern ''1'')
               = ?pre @ CHR 0x27 # pattern @ CHR 0x27 # '' | head -n1''"
    by (simp add: tag_query_def quoted_def format_git_cmd_def)
  show ?thesis
    unfolding cmd parse_tag_query_def Let_def by simp
qed

lemma parse_tag_query_2:
  "parse_tag_query self (format_git_cmd self (tag_query pattern ''2'')) = Some (pattern, 2)"
proof -
  let ?pre = "format_git_cmd self
                ''for-each-ref --sort=-taggerdate --format '%(tag)' refs/tags | grep ''"
  have cmd: "format_git_cmd self (tag_query pattern ''2'')
               = ?pre @ CHR 0x27 # pattern @ CHR 0x27 # '' | head -n2''"
    by (simp add: tag_query_def quoted_def format_git_cmd_def)
  show ?thesis
    unfolding cmd parse_tag_query_def Let_def by simp
qed

lemma tag_shell_plain:
  assumes "bre_fragment pattern" and "CHR ''.'' \<notin> set pattern"
  shows "tag_shell self (format_git_cmd self (tag_query pattern ''1'')) w
           = (0, unlines (take 1 (filter (contains pattern) (tags w))), w)"
    and "tag_shell self (format_git_cmd self (tag_query pattern ''2'')) w
           = (0, unlines (take 2 (filter (contains pattern) (tags w))), w)"
proof -
  from assms(2) have "grep_matches pattern = contains pattern"
    by (auto simp: grep_matches_plain)
  with assms(1) show "tag_shell self (format_git_cmd self (tag_query pattern ''1'')) w
           = (0, unlines (take 1 (filter (contains pattern) (tags w))), w)"
    and "tag_shell self (format_git_cmd self (tag_query pattern ''2'')) w
           = (0, unlines (take 2 (filter (contains pattern) (tags w))), w)"
    by (simp_all add: tag_shell_def parse_tag_query_1 parse_tag_query_2)
qed

text \<open>
  C3 (as the code has it). The program does not match tags itself. Whatever the pattern
  and the outside world, both queries run the pipeline
  \<^verbatim>\<open>for-each-ref --sort=-taggerdate --format '%(tag)' refs/tags | grep '<pattern>' | head -n<k>\<close>
  with the pattern copied between the single quotes as the regular expression of
  \<^verbatim>\<open>grep\<close>, and go on with what the pipeline printed: \<open>get_latest_tag_commit\<close> with the
  whole trimmed output as the tag, \<open>get_log\<close> with its first two lines. In the modelled
  world \<open>tag_shell\<close>, a pattern of printable ASCII characters none of which is special
  for \<^verbatim>\<open>grep\<close> or ends the quoting selects the newest \<open>k\<close> tags whose name contains
  the pattern.
\<close>

theorem tag_filter_is_grep:
  fixes sh :: "'w shell"
  shows
   "(sh (format_git_cmd self
           (''for-each-ref --sort=-taggerdate --format '%(tag)' refs/tags | grep ''
              @ [CHR 0x27] @ pattern @ [CHR 0x27] @ '' | head -n1'')) (world s) = (0, out, w')
      \<and> decode (strip out) = Inr tag
     \<longrightarrow> get_latest_tag_commit sh self pattern s =
           git_get_output sh self (''rev-parse --short '' @ tag @ ''^'')
             \<lparr>world = w',
              trace = trace s @ [Spawned (format_git_cmd self (tag_query pattern ''1'')) 0]\<rparr>)
    \<and> (sh (format_git_cmd self
           (''for-each-ref --sort=-taggerdate --format '%(tag)' refs/tags | grep ''
              @ [CHR 0x27] @ pattern @ [CHR 0x27] @ '' | head -n2'')) (world s) = (0, out, w')
      \<and> decode (strip out) = Inr text
     \<longrightarrow> get_log sh self pattern s =
           (case splitlines text of
              t0 # t1 # _ \<Rightarrow>
                git_get_output sh self (log_cmd t1 t0)
                  \<lparr>world = w',
                   trace = trace s @ [Spawned (format_git_cmd self (tag_query pattern ''2'')) 0]\<rparr>
            | _ \<Rightarrow>
                (Inl IndexError,
                 \<lparr>world = w',
                  trace = trace s @ [Spawned (format_git_cmd self (tag_query pattern ''2'')) 0]\<rparr>)))
    \<and> (bre_fragment pattern \<and> CHR ''.'' \<notin> set pattern
     \<longrightarrow> tag_shell self (format_git_cmd self (tag_query pattern ''1'')) w
           = (0, unlines (take 1 (filter (contains pattern) (tags w))), w)
       \<and> tag_shell self (format_git_cmd self (tag_query pattern ''2'')) w
           = (0, unlines (take 2 (filter (contains pattern) (tags w))), w))"
proof -
  have q: "\<And>n. ''for-each-ref --sort=-taggerdate --format '%(tag)' refs/tags | grep ''
              @ [CHR 0x27] @ pattern @ [CHR 0x27] @ '' | head -n'' @ n = tag_query pattern n"
    by (simp add: tag_query_def quoted_def)
  have q1: "''for-each-ref --sort=-taggerdate --format '%(tag)' refs/tags | grep ''
              @ [CHR 0x27] @ pattern @ [CHR 0x27] @ '' | head -n1'' = tag_query pattern ''1''"
    using q [of "''1''"] by simp
  have q2: "''for-each-ref --sort=-taggerdate --format '%(tag)' refs/tags | grep ''
              @ [CHR 0x27] @ pattern @ [CHR 0x27] @ '' | head -n2'' = tag_query pattern ''2''"
    using q [of "''2''"] by simp
  have latest: "sh (format_git_cmd self (tag_query pattern ''1'')) (world s) = (0, out, w')
      \<and> decode (strip out) = Inr tag
     \<longrightarrow> get_latest_tag_commit sh self pattern s =
           git_get_output sh self (''rev-parse --short '' @ tag @ ''^'')
             \<lparr>world = w',
              trace = trace s @ [Spawned (format_git_cmd self (tag_query pattern ''1'')) 0]\<rparr>"
  proof
    assume a: "sh (format_git_cmd self (tag_query pattern ''1'')) (world s) = (0, out, w')
      \<and> decode (strip out) = Inr tag"
    then have "git_get_output sh self (tag_query pattern ''1'') s =
        (Inr tag, \<lparr>world = w',
              trace = trace s @ [Spawned (format_git_cmd self (tag_query pattern ''1'')) 0]\<rparr>)"
      by (simp add: git_get_output_run)
    then show "get_latest_tag_commit sh self pattern s =
           git_get_output sh self (''rev-parse --short '' @ tag @ ''^'')
             \<lparr>world = w',
              trace = trace s @ [Spawned (format_git_cmd self (tag_query pattern ''1'')) 0]\<rparr>"
      unfolding get_latest_tag_commit_def by (rule and_then_Inr)
  qed
  have log: "sh (format_git_cmd self (tag_query pattern ''2'')) (world s) = (0, out, w')
      \<and> decode (strip out) = Inr text
     \<longrightarrow> get_log sh self pattern s =
           (case splitlines text of
              t0 # t1 # _ \<Rightarrow>
                git_get_output sh self (log_cmd t1 t0)
                  \<lparr>world = w',
                   trace = trace s @ [Spawned (format_git_cmd self (tag_query pattern ''2'')) 0]\<rparr>
            | _ \<Rightarrow>
                (Inl IndexError,
                 \<lparr>world = w',
                  trace = trace s @ [Spawned (format_git_cmd self (tag_query pattern ''2'')) 0]\<rparr>))"
  proof
    assume a: "sh (format_git_cmd self (tag_query pattern ''2'')) (world s) = (0, out, w')
      \<and> decode (strip out) = Inr text"
    then have "git_get_output sh self (tag_query pattern ''2'') s =
        (Inr text, \<lparr>world = w',
              trace = trace s @ [Spawned (format_git_cmd self (tag_query pattern ''2'')) 0]\<rparr>)"
      by (simp add: git_get_output_run)
    then show "get_log sh self pattern s =
           (case splitlines text of
              t0 # t1 # _ \<Rightarrow>
                git_get_output sh self (log_cmd t1 t0)
                  \<lparr>world = w',
                   trace = trace s @ [Spawned (format_git_cmd self (tag_query pattern ''2'')) 0]\<rparr>
            | _ \<Rightarrow>
                (Inl IndexError,
                 \<lparr>world = w',
                  trace = trace s @ [Spawned (format_git_cmd self (tag_query pattern ''2'')) 0]\<rparr>))"
      unfolding get_log_def by (simp add: and_then_Inr)
  qed
  from latest log tag_shell_plain [of pattern self w] show ?thesis
    unfolding q1 q2 by blast
qed

text \<open>
  A repository with the tags \<^verbatim>\<open>nightly_2\<close>, \<^verbatim>\<open>release_9\<close>, \<^verbatim>\<open>nightly_1\<close> (newest first) and
  the pattern \<^verbatim>\<open>nightly_\<close>.
\<close>

theorem tag_filter_is_grep_witness:
  "tag_shell repo (format_git_cmd repo (tag_query ''nightly_'' ''2''))
       \<lparr>tags = [''nightly_2'', ''release_9'', ''nightly_1''], script = [(0, ''abc1234\<newline>'')]\<rparr>
     = (0, ''nightly_2\<newline>nightly_1\<newline>'',
        \<lparr>tags = [''nightly_2'', ''release_9'', ''nightly_1''], script = [(0, ''abc1234\<newline>'')]\<rparr>)
   \<and> get_latest_tag_commit (tag_shell repo) repo ''nightly_''
       (start \<lparr>tags = [''nightly_2'', ''release_9'', ''nightly_1''],
               script = [(0, ''abc1234\<newline>'')]\<rparr>)
     = (Inr ''abc1234'',
        \<lparr>world = \<lparr>tags = [''nightly_2'', ''release_9'', ''nightly_1''], script = []\<rparr>,
         trace = [Spawned (format_git_cmd repo (tag_query ''nightly_'' ''1'')) 0,
                  Spawned (format_git_cmd repo ''rev-parse --short nightly_2^'') 0]\<rparr>)"
proof -
  let ?w = "\<lparr>tags = [''nightly_2'', ''release_9'', ''nightly_1''],
             script = [(0, ''abc1234\<newline>'')]\<rparr>"
  note t = tag_filter_is_grep
             [where sh = "tag_shell repo" and self = repo and pattern = "''nightly_''"
                and s = "start ?w" and w = ?w and w' = ?w and out = "''nightly_2\<newline>''"
                and tag = "''nightly_2''"]
  have frag: "bre_fragment ''nightly_'' \<and> CHR ''.'' \<notin> set ''nightly_''"
    by (simp add: bre_fragment_def)
  have sel: "unlines (take 2 (filter (contains ''nightly_'') (tags ?w)))
               = ''nightly_2\<newline>nightly_1\<newline>''"
    "unlines (take 1 (filter (contains ''nightly_'') (tags ?w))) = ''nightly_2\<newline>''"
    by (simp_all add: unlines_def)
  from t frag have ans:
    "tag_shell repo (format_git_cmd repo (tag_query ''nightly_'' ''1'')) ?w
       = (0, unlines (take 1 (filter (contains ''nightly_'') (tags ?w))), ?w)"
    "tag_shell repo (format_git_cmd repo (tag_query ''nightly_'' ''2'')) ?w
       = (0, unlines (take 2 (filter (contains ''nightly_'') (tags ?w))), ?w)"
    by blast+
  have q1: "''for-each-ref --sort=-taggerdate --format '%(tag)' refs/tags | grep ''
              @ [CHR 0x27] @ ''nightly_'' @ [CHR 0x27] @ '' | head -n1'' = tag_query ''nightly_'' ''1''"
    by (simp add: tag_query_def quoted_def)
  have dec: "decode (strip ''nightly_2\<newline>'') = Inr ''nightly_2''"
    by (simp add: decode_def strip_def is_space_def)
  have run: "tag_shell repo (format_git_cmd repo (tag_query ''nightly_'' ''1'')) (world (start ?w))
               = (0, ''nightly_2\<newline>'', ?w)"
    using ans(1) unfolding sel by (simp add: start_def)
  from t run dec have
    "get_latest_tag_commit (tag_shell repo) repo ''nightly_'' (start ?w) =
       git_get_output (tag_shell repo) repo (''rev-parse --short '' @ ''nightly_2'' @ ''^'')
         \<lparr>world = ?w,
          trace = trace (start ?w) @ [Spawned (format_git_cmd repo (tag_query ''nightly_'' ''1'')) 0]\<rparr>"
    unfolding q1 by blast
  moreover have
    "git_get_output (tag_shell repo) repo (''rev-parse --short '' @ ''nightly_2'' @ ''^'')
         \<lparr>world = ?w,
          trace = trace (start ?w) @ [Spawned (format_git_cmd repo (tag_query ''nightly_'' ''1'')) 0]\<rparr>
     = (Inr ''abc1234'',
        \<lparr>world = \<lparr>tags = [''nightly_2'', ''release_9'', ''nightly_1''], script = []\<rparr>,
         trace = [Spawned (format_git_cmd repo (tag_query ''nightly_'' ''1'')) 0,
                  Spawned (format_git_cmd repo ''rev-parse --short nightly_2^'') 0]\<rparr>)"
    by (simp add: git_get_output_run tag_shell_def parse_tag_query_def format_git_cmd_def
        scripted_def start_def decode_def strip_def is_space_def Let_def)
  ultimately show ?thesis
    using ans(2) unfolding sel by simp
qed

text \<open>
  A repository whose only tag is \<^verbatim>\<open>v1x0\<close>, and the pattern \<^verbatim>\<open>v1.0\<close>: the tag is
  selected, since the period of the regular expression matches the \<^verbatim>\<open>x\<close>, although its
  name does not contain the pattern.
\<close>

theorem tag_filter_period_matches_any:
  "get_latest_tag_commit (tag_shell repo) repo ''v1.0''
       (start \<lparr>tags = [''v1x0''], script = [(0, ''abc1234\<newline>'')]\<rparr>)
     = (Inr ''abc1234'',
        \<lparr>world = \<lparr>tags = [''v1x0''], script = []\<rparr>,
         trace = [Spawned (format_git_cmd repo (tag_query ''v1.0'' ''1'')) 0,
                  Spawned (format_git_cmd repo ''rev-parse --short v1x0^'') 0]\<rparr>)
   \<and> \<not> contains ''v1.0'' ''v1x0''"
  by code_simp

end
